theory Spec2Isabelle
  imports Complex_Main "HOL-Library.Sublist"
begin

section \<open>Employee Management API: data model\<close>

text \<open>
  The handlers of \<^verbatim>\<open>app/main.py\<close> run against a relational store through an
  object-relational mapper. The store is modelled as a record of two tables, each a list of
  rows in the order a table scan returns them (for the default SQLite store: ascending
  rowid). Every handler takes the store and returns its result together with the store
  after the request. A raised HTTPException, a request refused by schema validation, a
  constraint violation reported by the store at commit, and a response that fails its own
  schema are values of \<open>error\<close>.

  \<open>datetime.now(UTC)\<close> is a parameter \<open>now\<close> of the handlers that read the clock. The
  syntax check behind \<open>EmailStr\<close> belongs to a library outside the repository and is a
  parameter \<open>email_ok\<close>; emails are taken as already normalised.
\<close>

type_synonym timestamp = nat

datatype error =
    ValidationError
  | NotFoundError
  | ConflictError
  | IntegrityError
  | ResponseValidationError

fun status_code :: "error \<Rightarrow> nat" where
  "status_code ValidationError = 422"
| "status_code NotFoundError = 404"
| "status_code ConflictError = 409"
| "status_code IntegrityError = 500"
| "status_code ResponseValidationError = 500"

text \<open>
  A \<open>Decimal\<close> as a request carries it: \<open>Decimal n k\<close> stands for \<open>n / 10 ^ k\<close>, written
  with \<open>k\<close> decimal places. The column \<open>Numeric(10, 2)\<close> holds hundredths, an \<open>int\<close>.
\<close>

datatype Decimal = Decimal int nat

fun decimal_places :: "Decimal \<Rightarrow> nat" where
  "decimal_places (Decimal n k) = k"

fun gt_zero :: "Decimal \<Rightarrow> bool" where
  "gt_zero (Decimal n k) = (0 < n)"

fun hundredths :: "Decimal \<Rightarrow> int" where
  "hundredths (Decimal n k) = n * 10 ^ (2 - k)"

text \<open>\<^verbatim>\<open>app/models.py\<close>: the two tables. Columns declared \<open>nullable=False\<close> (and the
  primary key) have the value's type; \<open>is_active\<close> and \<open>updated_at\<close> are nullable.
  \<open>created_at\<close> is filled by its column default at every insert and no request can write
  it, so it is never null.\<close>

record Department =
  dept_id :: int
  name :: string
  code :: string

record Employee =
  emp_id :: int
  first_name :: string
  last_name :: string
  email :: string
  department_id :: int
  position :: string
  salary :: int
  is_active :: "bool option"
  created_at :: timestamp
  updated_at :: "timestamp option"

record Store =
  departments :: "Department list"
  employees :: "Employee list"

text \<open>\<^verbatim>\<open>app/schemas.py\<close>: request and response schemas.\<close>

record EmployeeCreate =
  c_first_name :: string
  c_last_name :: string
  c_email :: string
  c_department_id :: int
  c_position :: string
  c_salary :: Decimal
  c_is_active :: bool

text \<open>
  \<open>EmployeeUpdate\<close>: every field is \<open>Optional\<close> with default \<open>None\<close>. A field is either
  not set (\<open>None\<close>), set to null (\<open>Some None\<close>) or set to a value (\<open>Some (Some v)\<close>); this
  is what \<open>model_dump(exclude_unset=True)\<close> returns as \<open>update_data\<close>: a key for each set
  field, with its value.
\<close>

record EmployeeUpdate =
  u_first_name :: "string option option"
  u_last_name :: "string option option"
  u_email :: "string option option"
  u_department_id :: "int option option"
  u_position :: "string option option"
  u_salary :: "Decimal option option"
  u_is_active :: "bool option option"

record EmployeeResponse =
  r_first_name :: string
  r_last_name :: string
  r_email :: string
  r_department_id :: int
  r_position :: string
  r_salary :: int
  r_is_active :: bool
  r_id :: int
  r_created_at :: timestamp
  r_updated_at :: "timestamp option"

record EmployeeListResponse =
  items :: "EmployeeResponse list"
  total :: int
  page :: int
  page_size :: int
  total_pages :: int

record DepartmentResponse =
  d_name :: string
  d_code :: string
  d_id :: int
  d_employee_count :: int

section \<open>Schema validation\<close>

definition str_between :: "nat \<Rightarrow> nat \<Rightarrow> string \<Rightarrow> bool" where
  "str_between lo hi s = (lo \<le> length s \<and> length s \<le> hi)"

text \<open>The field constraints of \<open>EmployeeBase\<close>, shared by \<open>EmployeeCreate\<close> and
  \<open>EmployeeResponse\<close>.\<close>

definition EmployeeBase_valid ::
  "(string \<Rightarrow> bool) \<Rightarrow> string \<Rightarrow> string \<Rightarrow> string \<Rightarrow> int \<Rightarrow> string \<Rightarrow> Decimal \<Rightarrow> bool" where
  "EmployeeBase_valid email_ok fname lname mail dep pos sal =
     (str_between 1 100 fname \<and> str_between 1 100 lname \<and> email_ok mail \<and> 1 \<le> dep
      \<and> str_between 1 200 pos \<and> gt_zero sal \<and> decimal_places sal \<le> 2)"

definition EmployeeCreate_valid :: "(string \<Rightarrow> bool) \<Rightarrow> EmployeeCreate \<Rightarrow> bool" where
  "EmployeeCreate_valid email_ok p =
     EmployeeBase_valid email_ok (c_first_name p) (c_last_name p) (c_email p)
       (c_department_id p) (c_position p) (c_salary p)"

text \<open>An \<open>Optional\<close> field accepts null; its constraint applies to a value only.\<close>

fun optional_ok :: "('a \<Rightarrow> bool) \<Rightarrow> 'a option option \<Rightarrow> bool" where
  "optional_ok P None = True"
| "optional_ok P (Some None) = True"
| "optional_ok P (Some (Some v)) = P v"

definition EmployeeUpdate_valid :: "(string \<Rightarrow> bool) \<Rightarrow> EmployeeUpdate \<Rightarrow> bool" where
  "EmployeeUpdate_valid email_ok u =
     (optional_ok (str_between 1 100) (u_first_name u)
      \<and> optional_ok (str_between 1 100) (u_last_name u)
      \<and> optional_ok email_ok (u_email u)
      \<and> optional_ok (\<lambda>d. 1 \<le> d) (u_department_id u)
      \<and> optional_ok (str_between 1 200) (u_position u)
      \<and> optional_ok (\<lambda>d. gt_zero d \<and> decimal_places d \<le> 2) (u_salary u))"

text \<open>
  \<open>EmployeeResponse.model_validate(emp)\<close> reads the attributes of the row and validates
  them against \<open>EmployeeResponse\<close>: the constraints of \<open>EmployeeBase\<close>, and \<open>is_active\<close> a
  \<open>bool\<close>, which null is not. A failure is raised inside the handler and is answered with
  status 500.
\<close>

definition EmployeeResponse_model_validate ::
  "(string \<Rightarrow> bool) \<Rightarrow> Employee \<Rightarrow> error + EmployeeResponse" where
  "EmployeeResponse_model_validate email_ok emp =
     (case is_active emp of
        None \<Rightarrow> Inl ResponseValidationError
      | Some act \<Rightarrow>
          if EmployeeBase_valid email_ok (first_name emp) (last_name emp) (email emp)
               (department_id emp) (position emp) (Decimal (salary emp) 2)
          then Inr \<lparr>r_first_name = first_name emp, r_last_name = last_name emp,
                    r_email = email emp, r_department_id = department_id emp,
                    r_position = position emp, r_salary = salary emp, r_is_active = act,
                    r_id = emp_id emp, r_created_at = created_at emp,
                    r_updated_at = updated_at emp\<rparr>
          else Inl ResponseValidationError)"

text \<open>The list comprehension over the page: the first row that fails raises.\<close>

fun model_validate_all ::
  "(string \<Rightarrow> bool) \<Rightarrow> Employee list \<Rightarrow> error + EmployeeResponse list" where
  "model_validate_all email_ok [] = Inr []"
| "model_validate_all email_ok (emp # emps) =
     (case EmployeeResponse_model_validate email_ok emp of
        Inl e \<Rightarrow> Inl e
      | Inr r \<Rightarrow> (case model_validate_all email_ok emps of
                   Inl e \<Rightarrow> Inl e
                 | Inr rs \<Rightarrow> Inr (r # rs)))"

section \<open>The query interface\<close>

text \<open>\<open>query.filter(P).first()\<close>: the first row of the scan that satisfies \<open>P\<close>, or
  \<open>None\<close>.\<close>

definition query_first :: "('a \<Rightarrow> bool) \<Rightarrow> 'a list \<Rightarrow> 'a option" where
  "query_first P rows = (case filter P rows of [] \<Rightarrow> None | r # _ \<Rightarrow> Some r)"

text \<open>
  \<open>column.ilike(pattern)\<close> is rendered for SQLite as
  \<open>lower(column) LIKE lower(pattern)\<close>, with no ESCAPE clause. In a LIKE pattern \<open>%\<close>
  matches any run of characters, also the empty one, \<open>_\<close> matches exactly one character
  and every other character matches itself. \<open>lower\<close> folds the letters A to Z.
\<close>

definition lower_char :: "char \<Rightarrow> char" where
  "lower_char c =
     (let n = (of_char c :: nat)
      in if 65 \<le> n \<and> n \<le> 90 then char_of (n + 32) else c)"

definition lower :: "string \<Rightarrow> string" where
  "lower s = map lower_char s"

fun like :: "string \<Rightarrow> string \<Rightarrow> bool" where
  "like [] [] = True"
| "like [] (c # cs) = False"
| "like (p # ps) [] = (p = CHR ''%'' \<and> like ps [])"
| "like (p # ps) (c # cs) =
     (if p = CHR ''%'' then like ps (c # cs) \<or> like (p # ps) cs
      else (p = CHR ''_'' \<or> p = c) \<and> like ps cs)"

definition ilike :: "string \<Rightarrow> string \<Rightarrow> bool" where
  "ilike column pattern = like (lower pattern) (lower column)"

section \<open>Employee endpoints\<close>

text \<open>
  Lines 93 to 105 of \<open>list_employees\<close>: the query with its filters. A filter is added for
  \<open>department_id\<close> and \<open>is_active\<close> when the parameter is not \<open>None\<close>, the search condition
  when \<open>search\<close> is truthy, that is, neither \<open>None\<close> nor the empty string. A comparison
  with a null \<open>is_active\<close> is not true in SQL, so such a row passes neither value of the
  filter. No ORDER BY is issued: the rows come in scan order.
\<close>

definition search_matches :: "string \<Rightarrow> Employee \<Rightarrow> bool" where
  "search_matches search emp =
     (let search_term = CHR ''%'' # search @ [CHR ''%'']
      in ilike (first_name emp) search_term \<or> ilike (last_name emp) search_term
         \<or> ilike (email emp) search_term)"

definition employees_query ::
  "int option \<Rightarrow> bool option \<Rightarrow> string option \<Rightarrow> Store \<Rightarrow> Employee list" where
  "employees_query department_id' is_active' search db =
     (let query = employees db;
          query = (case department_id' of None \<Rightarrow> query
                   | Some d \<Rightarrow> filter (\<lambda>e. department_id e = d) query);
          query = (case is_active' of None \<Rightarrow> query
                   | Some a \<Rightarrow> filter (\<lambda>e. is_active e = Some a) query);
          query = (case search of None \<Rightarrow> query
                   | Some t \<Rightarrow> if t = [] then query else filter (search_matches t) query)
      in query)"

text \<open>
  \<open>math.ceil(total / page_size)\<close> divides as floating point and rounds up; the model
  divides exactly, which agrees as long as the row count is below \<open>2 ^ 53\<close>. The bounds
  of \<open>page\<close> and \<open>page_size\<close> are checked by the framework before the handler runs.
\<close>

definition list_employees ::
  "(string \<Rightarrow> bool) \<Rightarrow> int \<Rightarrow> int \<Rightarrow> int option \<Rightarrow> bool option \<Rightarrow> string option \<Rightarrow> Store
     \<Rightarrow> error + EmployeeListResponse" where
  "list_employees email_ok page' page_size' department_id' is_active' search db =
     (if page' < 1 \<or> page_size' < 1 \<or> 100 < page_size' then Inl ValidationError
      else
        let query = employees_query department_id' is_active' search db;
            total' = int (length query);
            total_pages' = (if 0 < total' then \<lceil>real_of_int total' / real_of_int page_size'\<rceil>
                            else 1);
            items' = take (nat page_size') (drop (nat ((page' - 1) * page_size')) query)
        in case model_validate_all email_ok items' of
             Inl e \<Rightarrow> Inl e
           | Inr rs \<Rightarrow> Inr \<lparr>items = rs, total = total', page = page',
                            page_size = page_size', total_pages = total_pages'\<rparr>)"

text \<open>
  The primary key of a new row: the largest \<open>id\<close> in the table plus one, and 1 in an
  empty table (an SQLite INTEGER PRIMARY KEY without AUTOINCREMENT).
\<close>

fun max_id :: "Employee list \<Rightarrow> int" where
  "max_id [] = 0"
| "max_id (e # es) = max (emp_id e) (max_id es)"

definition insert_row :: "timestamp \<Rightarrow> EmployeeCreate \<Rightarrow> Employee list \<Rightarrow> Employee" where
  "insert_row now employee rows =
     \<lparr>emp_id = max_id rows + 1,
      first_name = c_first_name employee, last_name = c_last_name employee,
      email = c_email employee, department_id = c_department_id employee,
      position = c_position employee, salary = hundredths (c_salary employee),
      is_active = Some (c_is_active employee),
      created_at = now, updated_at = None\<rparr>"

text \<open>
  \<open>create_employee\<close>. The payload has been validated by the framework when the handler
  body runs. \<open>insert_row\<close> is \<open>db_employee\<close> after \<open>add\<close>, \<open>commit\<close> and \<open>refresh\<close>:
  the payload's fields, the new primary key and the column defaults.
\<close>

definition create_employee ::
  "(string \<Rightarrow> bool) \<Rightarrow> timestamp \<Rightarrow> EmployeeCreate \<Rightarrow> Store
     \<Rightarrow> (error + EmployeeResponse) \<times> Store" where
  "create_employee email_ok now employee db =
     (if \<not> EmployeeCreate_valid email_ok employee then (Inl ValidationError, db)
      else case query_first (\<lambda>e. email e = c_email employee) (employees db) of
        Some existing \<Rightarrow> (Inl ConflictError, db)
      | None \<Rightarrow>
         (case query_first (\<lambda>d. dept_id d = c_department_id employee) (departments db) of
            None \<Rightarrow> (Inl NotFoundError, db)
          | Some dept \<Rightarrow>
              let db_employee = insert_row now employee (employees db);
                  db' = db\<lparr>employees := employees db @ [db_employee]\<rparr>
              in (EmployeeResponse_model_validate email_ok db_employee, db')))"

definition get_employee ::
  "(string \<Rightarrow> bool) \<Rightarrow> int \<Rightarrow> Store \<Rightarrow> error + EmployeeResponse" where
  "get_employee email_ok employee_id db =
     (case query_first (\<lambda>e. emp_id e = employee_id) (employees db) of
        None \<Rightarrow> Inl NotFoundError
      | Some employee \<Rightarrow> EmployeeResponse_model_validate email_ok employee)"

text \<open>
  \<open>update_employee\<close> loads the row as a mapped object, sets the attributes named in
  \<open>update_data\<close> and commits. \<open>EmployeeObj\<close> holds the attributes the loop can set; after
  \<open>setattr\<close> any of them may be \<open>None\<close>.
\<close>

record EmployeeObj =
  o_first_name :: "string option"
  o_last_name :: "string option"
  o_email :: "string option"
  o_department_id :: "int option"
  o_position :: "string option"
  o_salary :: "int option"
  o_is_active :: "bool option"

definition load :: "Employee \<Rightarrow> EmployeeObj" where
  "load emp =
     \<lparr>o_first_name = Some (first_name emp), o_last_name = Some (last_name emp),
      o_email = Some (email emp), o_department_id = Some (department_id emp),
      o_position = Some (position emp), o_salary = Some (salary emp),
      o_is_active = is_active emp\<rparr>"

fun setattr :: "'a option option \<Rightarrow> 'a option \<Rightarrow> 'a option" where
  "setattr None current = current"
| "setattr (Some v) current = v"

definition setattrs :: "EmployeeUpdate \<Rightarrow> EmployeeObj \<Rightarrow> EmployeeObj" where
  "setattrs update_data obj =
     \<lparr>o_first_name = setattr (u_first_name update_data) (o_first_name obj),
      o_last_name = setattr (u_last_name update_data) (o_last_name obj),
      o_email = setattr (u_email update_data) (o_email obj),
      o_department_id = setattr (u_department_id update_data) (o_department_id obj),
      o_position = setattr (u_position update_data) (o_position obj),
      o_salary = setattr (map_option (map_option hundredths) (u_salary update_data))
                   (o_salary obj),
      o_is_active = setattr (u_is_active update_data) (o_is_active obj)\<rparr>"

text \<open>
  \<open>db.commit()\<close> flushes the object. The mapper compares every attribute with the value
  it loaded; when none differs it issues no UPDATE, and then the \<open>onupdate\<close> default of
  \<open>updated_at\<close> does not run either. Otherwise the UPDATE writes the attributes and
  \<open>updated_at = now\<close> to the row with this primary key, unless a column declared
  \<open>nullable=False\<close> would become null: then the store refuses the statement and the
  transaction is rolled back. \<open>db.refresh\<close> reads the row back; it is returned with the
  store. (The handler has already compared a new email with the other rows, so the unique
  index on \<open>email\<close> cannot refuse the statement.)
\<close>

definition written_row :: "timestamp \<Rightarrow> Employee \<Rightarrow> EmployeeObj \<Rightarrow> Employee option" where
  "written_row now emp obj =
     (case o_first_name obj of None \<Rightarrow> None | Some v1 \<Rightarrow>
     (case o_last_name obj of None \<Rightarrow> None | Some v2 \<Rightarrow>
     (case o_email obj of None \<Rightarrow> None | Some v3 \<Rightarrow>
     (case o_department_id obj of None \<Rightarrow> None | Some v4 \<Rightarrow>
     (case o_position obj of None \<Rightarrow> None | Some v5 \<Rightarrow>
     (case o_salary obj of None \<Rightarrow> None | Some v6 \<Rightarrow>
        Some (emp\<lparr>first_name := v1, last_name := v2, email := v3, department_id := v4,
                  position := v5, salary := v6, is_active := o_is_active obj,
                  updated_at := Some now\<rparr>)))))))"

definition commit_update ::
  "timestamp \<Rightarrow> Employee \<Rightarrow> EmployeeObj \<Rightarrow> Store \<Rightarrow> error + Employee \<times> Store" where
  "commit_update now emp obj db =
     (if obj = load emp then Inr (emp, db)
      else case written_row now emp obj of
        None \<Rightarrow> Inl IntegrityError
      | Some row \<Rightarrow>
          Inr (row, db\<lparr>employees :=
                 map (\<lambda>r. if emp_id r = emp_id emp then row else r) (employees db)\<rparr>))"

text \<open>
  The two checks of \<open>update_employee\<close> on \<open>update_data\<close>. A comparison of a column with
  \<open>None\<close> is rendered \<open>IS NULL\<close>; neither \<open>departments.id\<close> nor \<open>employees.email\<close> is
  ever null, so such a query has no row.
\<close>

definition department_missing :: "EmployeeUpdate \<Rightarrow> Store \<Rightarrow> bool" where
  "department_missing update_data db =
     (case u_department_id update_data of
        None \<Rightarrow> False
      | Some None \<Rightarrow> True
      | Some (Some d) \<Rightarrow> query_first (\<lambda>dept. dept_id dept = d) (departments db) = None)"

definition email_taken :: "int \<Rightarrow> EmployeeUpdate \<Rightarrow> Store \<Rightarrow> bool" where
  "email_taken employee_id update_data db =
     (case u_email update_data of
        None \<Rightarrow> False
      | Some None \<Rightarrow> False
      | Some (Some m) \<Rightarrow>
          query_first (\<lambda>e. email e = m \<and> emp_id e \<noteq> employee_id) (employees db) \<noteq> None)"

definition update_employee ::
  "(string \<Rightarrow> bool) \<Rightarrow> timestamp \<Rightarrow> int \<Rightarrow> EmployeeUpdate \<Rightarrow> Store
     \<Rightarrow> (error + EmployeeResponse) \<times> Store" where
  "update_employee email_ok now employee_id updates db =
     (if \<not> EmployeeUpdate_valid email_ok updates then (Inl ValidationError, db)
      else case query_first (\<lambda>e. emp_id e = employee_id) (employees db) of
        None \<Rightarrow> (Inl NotFoundError, db)
      | Some employee \<Rightarrow>
          if department_missing updates db then (Inl NotFoundError, db)
          else if email_taken employee_id updates db then (Inl ConflictError, db)
          else (case commit_update now employee (setattrs updates (load employee)) db of
                  Inl e \<Rightarrow> (Inl e, db)
                | Inr (row, db') \<Rightarrow> (EmployeeResponse_model_validate email_ok row, db')))"

definition delete_employee :: "int \<Rightarrow> Store \<Rightarrow> (error + unit) \<times> Store" where
  "delete_employee employee_id db =
     (case query_first (\<lambda>e. emp_id e = employee_id) (employees db) of
        None \<Rightarrow> (Inl NotFoundError, db)
      | Some employee \<Rightarrow>
          (Inr (), db\<lparr>employees := filter (\<lambda>r. emp_id r \<noteq> emp_id employee) (employees db)\<rparr>))"

section \<open>Department endpoint and bootstrap\<close>

text \<open>\<open>Department.employee_count\<close>: the relationship \<open>employees\<close> is loaded when the
  property is read, as the rows whose \<open>department_id\<close> is the department's \<open>id\<close>.\<close>

definition employee_count :: "Department \<Rightarrow> Store \<Rightarrow> int" where
  "employee_count dept db =
     (let emps = filter (\<lambda>e. department_id e = dept_id dept) (employees db)
      in if emps \<noteq> [] then int (length emps) else 0)"

definition DepartmentResponse_model_validate ::
  "Department \<Rightarrow> Store \<Rightarrow> error + DepartmentResponse" where
  "DepartmentResponse_model_validate dept db =
     (if str_between 1 100 (name dept) \<and> str_between 1 10 (code dept)
      then Inr \<lparr>d_name = name dept, d_code = code dept, d_id = dept_id dept,
                d_employee_count = employee_count dept db\<rparr>
      else Inl ResponseValidationError)"

fun list_departments_rows :: "Department list \<Rightarrow> Store \<Rightarrow> error + DepartmentResponse list" where
  "list_departments_rows [] db = Inr []"
| "list_departments_rows (dept # depts) db =
     (case DepartmentResponse_model_validate dept db of
        Inl e \<Rightarrow> Inl e
      | Inr r \<Rightarrow> (case list_departments_rows depts db of
                   Inl e \<Rightarrow> Inl e
                 | Inr rs \<Rightarrow> Inr (r # rs)))"

definition list_departments :: "Store \<Rightarrow> error + DepartmentResponse list" where
  "list_departments db = list_departments_rows (departments db) db"

text \<open>\<^verbatim>\<open>app/database.py\<close>: the empty tables and the seeded departments, numbered from
  1 in the order of the list.\<close>

definition DEFAULT_DEPARTMENTS :: "(string \<times> string) list" where
  "DEFAULT_DEPARTMENTS =
     [(''Engineering'', ''ENG''), (''Human Resources'', ''HR''), (''Finance'', ''FIN''),
      (''Marketing'', ''MKT''), (''Sales'', ''SLS''), (''Information Technology'', ''IT''),
      (''Operations'', ''OPS'')]"

definition init_db :: Store where
  "init_db = \<lparr>departments = [], employees = []\<rparr>"

fun add_departments :: "int \<Rightarrow> (string \<times> string) list \<Rightarrow> Department list" where
  "add_departments i [] = []"
| "add_departments i ((n, c) # rest) =
     \<lparr>dept_id = i, name = n, code = c\<rparr> # add_departments (i + 1) rest"

definition seed_departments :: "Store \<Rightarrow> Store" where
  "seed_departments db =
     (if length (departments db) = 0
      then db\<lparr>departments := add_departments 1 DEFAULT_DEPARTMENTS\<rparr>
      else db)"

text \<open>The stores the application can be in: the bootstrap followed by any mutating
  requests, whatever their arguments and outcome.\<close>

inductive reachable :: "Store \<Rightarrow> bool" where
  bootstrap: "reachable (seed_departments init_db)"
| after_create:
    "reachable db \<Longrightarrow> reachable (snd (create_employee email_ok now employee db))"
| after_update:
    "reachable db \<Longrightarrow> reachable (snd (update_employee email_ok now employee_id updates db))"
| after_delete:
    "reachable db \<Longrightarrow> reachable (snd (delete_employee employee_id db))"

section \<open>Sample data\<close>

text \<open>
  A small store on which the handlers are evaluated: the seeded departments and up to two
  employees. \<open>has_at\<close> stands in for the email syntax check on these inputs. \<open>db1n\<close>
  is \<open>db1\<close> after a patch has set the \<open>is_active\<close> of its employee to null.
\<close>

definition has_at :: "string \<Rightarrow> bool" where
  "has_at s = (CHR ''@'' \<in> set s)"

definition alice :: EmployeeCreate where
  "alice = \<lparr>c_first_name = ''Alice'', c_last_name = ''Engineering'',
     c_email = ''alice@co.com'', c_department_id = 1, c_position = ''Dev'',
     c_salary = Decimal 5000 0, c_is_active = True\<rparr>"

definition bob :: EmployeeCreate where
  "bob = \<lparr>c_first_name = ''Bob'', c_last_name = ''Marketing'',
     c_email = ''bob@co.com'', c_department_id = 2, c_position = ''Lead'',
     c_salary = Decimal 61005 1, c_is_active = False\<rparr>"

definition alice_row :: Employee where
  "alice_row = \<lparr>emp_id = 1, first_name = ''Alice'', last_name = ''Engineering'',
     email = ''alice@co.com'', department_id = 1, position = ''Dev'', salary = 500000,
     is_active = Some True, created_at = 10, updated_at = None\<rparr>"

definition bob_row :: Employee where
  "bob_row = \<lparr>emp_id = 2, first_name = ''Bob'', last_name = ''Marketing'',
     email = ''bob@co.com'', department_id = 2, position = ''Lead'', salary = 610050,
     is_active = Some False, created_at = 11, updated_at = None\<rparr>"

definition db0 :: Store where
  "db0 = seed_departments init_db"

definition db1 :: Store where
  "db1 = db0\<lparr>employees := [alice_row]\<rparr>"

definition db2 :: Store where
  "db2 = db0\<lparr>employees := [alice_row, bob_row]\<rparr>"

definition alice_null_row :: Employee where
  "alice_null_row = alice_row\<lparr>is_active := None, updated_at := Some 20\<rparr>"

definition db1n :: Store where
  "db1n = db0\<lparr>employees := [alice_null_row]\<rparr>"

definition no_updates :: EmployeeUpdate where
  "no_updates = \<lparr>u_first_name = None, u_last_name = None, u_email = None,
     u_department_id = None, u_position = None, u_salary = None, u_is_active = None\<rparr>"

section \<open>The sample store is reachable\<close>

lemmas sample_defs = has_at_def alice_def bob_def alice_row_def bob_row_def db0_def db1_def
  db2_def seed_departments_def init_db_def DEFAULT_DEPARTMENTS_def no_updates_def
  alice_null_row_def db1n_def

lemmas schema_defs = EmployeeCreate_valid_def EmployeeBase_valid_def str_between_def
  EmployeeResponse_model_validate_def EmployeeUpdate_valid_def

lemma create_alice:
  "create_employee has_at 10 alice db0 = (EmployeeResponse_model_validate has_at alice_row, db1)"
  by (simp add: create_employee_def insert_row_def sample_defs schema_defs query_first_def)

lemma create_bob:
  "create_employee has_at 11 bob db1 = (EmployeeResponse_model_validate has_at bob_row, db2)"
  by (simp add: create_employee_def insert_row_def sample_defs schema_defs query_first_def)

lemma reachable_db0: "reachable db0"
  unfolding db0_def by (rule reachable.bootstrap)

lemma reachable_db1: "reachable db1"
  using reachable.after_create [OF reachable_db0, of has_at 10 alice]
  by (simp add: create_alice)

lemma reachable_db2: "reachable db2"
  using reachable.after_create [OF reachable_db1, of has_at 11 bob]
  by (simp add: create_bob)

section \<open>Listing: the search parameter\<close>

text \<open>
  C9. A search parameter given as the empty string is treated as an absent one: the
  handler tests the truthiness of the string, so no search condition is added to the
  query and the whole response is that of the request without \<open>search\<close>.
\<close>

theorem empty_search_as_absent:
  "employees_query d a (Some []) db = employees_query d a None db
   \<and> list_employees email_ok p ps d a (Some []) db = list_employees email_ok p ps d a None db"
  by (simp add: list_employees_def employees_query_def)

theorem empty_search_as_absent_witness:
  "employees_query None None (Some []) db2 = [alice_row, bob_row]
   \<and> list_employees has_at 1 20 None None (Some []) db2
       = list_employees has_at 1 20 None None None db2"
  using empty_search_as_absent [of None None db2 has_at 1 20]
  by (simp add: employees_query_def db2_def)

section \<open>The first row of a query\<close>

lemma query_first_None_iff: "query_first P rows = None \<longleftrightarrow> (\<forall>r \<in> set rows. \<not> P r)"
proof (cases "filter P rows")
  case Nil
  then show ?thesis by (simp add: query_first_def filter_empty_conv)
next
  case (Cons r rest)
  then have "r \<in> set (filter P rows)" by simp
  then have "\<exists>r \<in> set rows. P r" by auto
  with Cons show ?thesis by (simp add: query_first_def)
qed

lemma query_first_SomeD: "query_first P rows = Some r \<Longrightarrow> r \<in> set rows \<and> P r"
proof -
  assume "query_first P rows = Some r"
  then obtain rest where "filter P rows = r # rest"
    by (auto simp: query_first_def split: list.splits)
  then have "r \<in> set (filter P rows)" by simp
  then show ?thesis by simp
qed

section \<open>Creation: order of the checks\<close>

text \<open>
  C3. Creation checks in a fixed order: an invalid payload is refused with
  ValidationError whatever the store holds; a valid payload whose email an employee
  already has is refused with ConflictError, also when its \<open>department_id\<close> names no
  department; NotFoundError is left for a valid payload with a fresh email and an unknown
  department. The store is unchanged in all three cases.
\<close>

theorem create_employee_check_order:
  "(\<not> EmployeeCreate_valid email_ok employee \<longrightarrow>
      create_employee email_ok now employee db = (Inl ValidationError, db))
   \<and> (EmployeeCreate_valid email_ok employee
        \<and> (\<exists>e \<in> set (employees db). email e = c_email employee) \<longrightarrow>
      create_employee email_ok now employee db = (Inl ConflictError, db))
   \<and> (EmployeeCreate_valid email_ok employee
        \<and> (\<forall>e \<in> set (employees db). email e \<noteq> c_email employee)
        \<and> (\<forall>d \<in> set (departments db). dept_id d \<noteq> c_department_id employee) \<longrightarrow>
      create_employee email_ok now employee db = (Inl NotFoundError, db))"
proof (intro conjI impI)
  assume "\<not> EmployeeCreate_valid email_ok employee"
  then show "create_employee email_ok now employee db = (Inl ValidationError, db)"
    by (simp add: create_employee_def)
next
  assume h: "EmployeeCreate_valid email_ok employee
        \<and> (\<exists>e \<in> set (employees db). email e = c_email employee)"
  then have "query_first (\<lambda>e. email e = c_email employee) (employees db) \<noteq> None"
    by (simp add: query_first_None_iff)
  with h show "create_employee email_ok now employee db = (Inl ConflictError, db)"
    by (auto simp: create_employee_def split: option.splits)
next
  assume h: "EmployeeCreate_valid email_ok employee
        \<and> (\<forall>e \<in> set (employees db). email e \<noteq> c_email employee)
        \<and> (\<forall>d \<in> set (departments db). dept_id d \<noteq> c_department_id employee)"
  then have "query_first (\<lambda>e. email e = c_email employee) (employees db) = None"
    and "query_first (\<lambda>d. dept_id d = c_department_id employee) (departments db) = None"
    by (simp_all add: query_first_None_iff)
  with h show "create_employee email_ok now employee db = (Inl NotFoundError, db)"
    by (simp add: create_employee_def)
qed

theorem create_employee_check_order_witness:
  "EmployeeCreate_valid has_at (alice\<lparr>c_department_id := 999\<rparr>)
   \<and> email alice_row = c_email (alice\<lparr>c_department_id := 999\<rparr>)
   \<and> employees db1 = [alice_row]
   \<and> list_all (\<lambda>d. dept_id d \<noteq> 999) (departments db1)
   \<and> create_employee has_at 12 (alice\<lparr>c_department_id := 999\<rparr>) db1 = (Inl ConflictError, db1)"
  using create_employee_check_order [of has_at "alice\<lparr>c_department_id := 999\<rparr>" 12 db1]
  by (simp add: sample_defs schema_defs)

section \<open>Rejected requests leave the store as it was\<close>











section \<open>Update: what the commit writes\<close>

lemma query_first_replaced:
  assumes "emp_id row = i"
  shows "query_first (\<lambda>e. emp_id e = i) (map (\<lambda>r. if emp_id r = i then row else r) rows)
         = (if query_first (\<lambda>e. emp_id e = i) rows = None then None else Some row)"
  using assms by (induction rows) (auto simp: query_first_def)

lemma written_row_id: "written_row now emp obj = Some row \<Longrightarrow> emp_id row = emp_id emp"
  by (auto simp: written_row_def split: option.splits)

lemma written_row_updated_at:
  "written_row now emp obj = Some row \<Longrightarrow> updated_at row = Some now"
  by (auto simp: written_row_def split: option.splits)

lemma model_validate_updated_at:
  "EmployeeResponse_model_validate email_ok row = Inr r \<Longrightarrow> r_updated_at r = updated_at row"
  by (auto simp: EmployeeResponse_model_validate_def split: option.splits if_splits)

lemma no_updates_valid: "EmployeeUpdate_valid email_ok no_updates"
  by (simp add: EmployeeUpdate_valid_def no_updates_def)

lemma setattrs_no_updates: "setattrs no_updates obj = obj"
  by (simp add: setattrs_def no_updates_def)

lemma update_employee_empty_patch:
  assumes "query_first (\<lambda>e. emp_id e = employee_id) (employees db) = Some emp"
  shows "update_employee email_ok now employee_id no_updates db
         = (EmployeeResponse_model_validate email_ok emp, db)"
  using assms
  by (simp add: update_employee_def no_updates_valid setattrs_no_updates commit_update_def
      department_missing_def email_taken_def no_updates_def [THEN arg_cong [where f = u_email]]
      no_updates_def [THEN arg_cong [where f = u_department_id]])

lemma update_employee_success:
  assumes found: "query_first (\<lambda>e. emp_id e = employee_id) (employees db) = Some emp"
    and ok: "update_employee email_ok now employee_id updates db = (Inr r, db')"
  shows "commit_update now emp (setattrs updates (load emp)) db \<noteq> Inl IntegrityError
    \<and> (\<forall>row. commit_update now emp (setattrs updates (load emp)) db = Inr (row, db') \<longrightarrow>
          EmployeeResponse_model_validate email_ok row = Inr r)
    \<and> (\<exists>row. commit_update now emp (setattrs updates (load emp)) db = Inr (row, db'))"
  using assms
  by (auto simp: update_employee_def split: if_splits sum.splits)

lemmas update_defs = update_employee_def query_first_def department_missing_def
  email_taken_def commit_update_def setattrs_def load_def written_row_def

section \<open>Update: when an email counts as taken\<close>

lemma email_taken_iff:
  "email_taken employee_id updates db \<longleftrightarrow>
     (\<exists>m. u_email updates = Some (Some m)
          \<and> (\<exists>e \<in> set (employees db). email e = m \<and> emp_id e \<noteq> employee_id))"
  by (auto simp: email_taken_def query_first_None_iff split: option.splits)



section \<open>Update: a field explicitly set to null\<close>

lemma null_fields_valid:
  assumes "EmployeeUpdate_valid email_ok updates"
  shows "EmployeeUpdate_valid email_ok (updates\<lparr>u_first_name := Some None\<rparr>)"
    and "EmployeeUpdate_valid email_ok (updates\<lparr>u_last_name := Some None\<rparr>)"
    and "EmployeeUpdate_valid email_ok (updates\<lparr>u_email := Some None\<rparr>)"
    and "EmployeeUpdate_valid email_ok (updates\<lparr>u_department_id := Some None\<rparr>)"
    and "EmployeeUpdate_valid email_ok (updates\<lparr>u_position := Some None\<rparr>)"
    and "EmployeeUpdate_valid email_ok (updates\<lparr>u_salary := Some None\<rparr>)"
    and "EmployeeUpdate_valid email_ok (updates\<lparr>u_is_active := Some None\<rparr>)"
  using assms by (simp_all add: EmployeeUpdate_valid_def)

lemma null_department_missing:
  "u_department_id updates = Some None \<Longrightarrow> department_missing updates db"
  by (simp add: department_missing_def)

lemma null_required_refused:
  assumes "u_first_name updates = Some None \<or> u_last_name updates = Some None
           \<or> u_email updates = Some None \<or> u_position updates = Some None
           \<or> u_salary updates = Some None"
  shows "commit_update now emp (setattrs updates (load emp)) db = Inl IntegrityError"
proof -
  from assms have "written_row now emp (setattrs updates (load emp)) = None"
    by (auto simp: written_row_def setattrs_def split: option.splits)
  moreover from assms have "setattrs updates (load emp) \<noteq> load emp"
    by (auto simp: setattrs_def load_def)
  ultimately show ?thesis
    by (simp add: commit_update_def)
qed

lemma null_is_active_written:
  assumes found: "query_first (\<lambda>e. emp_id e = employee_id) (employees db) = Some emp"
  shows "fst (update_employee email_ok now employee_id (no_updates\<lparr>u_is_active := Some None\<rparr>) db)
           = Inl ResponseValidationError
       \<and> map_option is_active (query_first (\<lambda>e. emp_id e = employee_id)
            (employees (snd (update_employee email_ok now employee_id
               (no_updates\<lparr>u_is_active := Some None\<rparr>) db)))) = Some None"
proof -
  let ?u = "no_updates\<lparr>u_is_active := Some None\<rparr>"
  from found have id: "emp_id emp = employee_id"
    by (auto dest: query_first_SomeD)
  have valid: "EmployeeUpdate_valid email_ok ?u"
    by (simp add: null_fields_valid no_updates_valid)
  have checks: "\<not> department_missing ?u db" "\<not> email_taken employee_id ?u db"
    by (simp_all add: department_missing_def email_taken_def no_updates_def)
  have obj: "setattrs ?u (load emp) = (load emp)\<lparr>o_is_active := None\<rparr>"
    by (simp add: setattrs_def load_def no_updates_def)
  show ?thesis
  proof (cases "is_active emp")
    case None
    then have "(load emp)\<lparr>o_is_active := None\<rparr> = load emp"
      by (simp add: load_def)
    with obj have "setattrs ?u (load emp) = load emp"
      by simp
    with None show ?thesis
      by (simp add: update_employee_def valid found checks commit_update_def
          EmployeeResponse_model_validate_def)
  next
    case (Some b)
    then have "(load emp)\<lparr>o_is_active := None\<rparr> \<noteq> load emp"
      by (simp add: load_def)
    with obj have changed: "setattrs ?u (load emp) \<noteq> load emp"
      by simp
    have "written_row now emp ((load emp)\<lparr>o_is_active := None\<rparr>)
               = Some (emp\<lparr>is_active := None, updated_at := Some now\<rparr>)"
      by (simp add: written_row_def load_def)
    with obj have row: "written_row now emp (setattrs ?u (load emp))
               = Some (emp\<lparr>is_active := None, updated_at := Some now\<rparr>)"
      by simp
    have "query_first (\<lambda>e. emp_id e = employee_id)
            (map (\<lambda>r. if emp_id r = employee_id
                       then emp\<lparr>is_active := None, updated_at := Some now\<rparr> else r)
               (employees db))
          = Some (emp\<lparr>is_active := None, updated_at := Some now\<rparr>)"
      using id by (simp add: query_first_replaced found)
    with changed row id show ?thesis
      by (simp add: update_employee_def valid found checks commit_update_def
          EmployeeResponse_model_validate_def)
  qed
qed

text \<open>
  C10, as amended. In a patch for an existing employee a field explicitly supplied as
  null passes schema validation, whichever field it is, and is part of the update data
  rather than treated as absent. What becomes of it depends on the field. A null
  \<open>is_active\<close> is written to the stored row (the response then fails its own schema,
  status 500, after the commit). A null \<open>department_id\<close> fails the department lookup:
  NotFoundError, nothing written. A null \<open>first_name\<close>, \<open>last_name\<close>, \<open>email\<close>,
  \<open>position\<close> or \<open>salary\<close> is set on the object, but the column is declared
  \<open>nullable=False\<close> and the store refuses the commit: IntegrityError, nothing written.
  None of them is answered with ValidationError.
\<close>

theorem explicit_null_in_patch:
  assumes found: "query_first (\<lambda>e. emp_id e = employee_id) (employees db) = Some emp"
    and valid: "EmployeeUpdate_valid email_ok updates"
  shows "EmployeeUpdate_valid email_ok (updates\<lparr>u_first_name := Some None\<rparr>)
       \<and> EmployeeUpdate_valid email_ok (updates\<lparr>u_last_name := Some None\<rparr>)
       \<and> EmployeeUpdate_valid email_ok (updates\<lparr>u_email := Some None\<rparr>)
       \<and> EmployeeUpdate_valid email_ok (updates\<lparr>u_department_id := Some None\<rparr>)
       \<and> EmployeeUpdate_valid email_ok (updates\<lparr>u_position := Some None\<rparr>)
       \<and> EmployeeUpdate_valid email_ok (updates\<lparr>u_salary := Some None\<rparr>)
       \<and> EmployeeUpdate_valid email_ok (updates\<lparr>u_is_active := Some None\<rparr>)
       \<and> fst (update_employee email_ok now employee_id
                (no_updates\<lparr>u_is_active := Some None\<rparr>) db) = Inl ResponseValidationError
       \<and> map_option is_active (query_first (\<lambda>e. emp_id e = employee_id)
            (employees (snd (update_employee email_ok now employee_id
               (no_updates\<lparr>u_is_active := Some None\<rparr>) db)))) = Some None
       \<and> (u_department_id updates = Some None \<longrightarrow>
            update_employee email_ok now employee_id updates db = (Inl NotFoundError, db))
       \<and> (\<not> department_missing updates db \<and> \<not> email_taken employee_id updates db
            \<and> (u_first_name updates = Some None \<or> u_last_name updates = Some None
                \<or> u_email updates = Some None \<or> u_position updates = Some None
                \<or> u_salary updates = Some None) \<longrightarrow>
            update_employee email_ok now employee_id updates db = (Inl IntegrityError, db))"
proof -
  have dep: "u_department_id updates = Some None \<longrightarrow>
            update_employee email_ok now employee_id updates db = (Inl NotFoundError, db)"
    using found valid by (simp add: update_employee_def null_department_missing)
  have req: "\<not> department_missing updates db \<and> \<not> email_taken employee_id updates db
            \<and> (u_first_name updates = Some None \<or> u_last_name updates = Some None
                \<or> u_email updates = Some None \<or> u_position updates = Some None
                \<or> u_salary updates = Some None) \<longrightarrow>
            update_employee email_ok now employee_id updates db = (Inl IntegrityError, db)"
    using found valid by (simp add: update_employee_def null_required_refused)
  from null_fields_valid [OF valid] null_is_active_written [OF found] dep req
  show ?thesis by blast
qed

text \<open>
  The specification has every explicit null written to the row. A null \<open>department_id\<close>
  and a null \<open>first_name\<close> pass validation but are not written: the stored row is
  unchanged.
\<close>

theorem null_department_id_not_written:
  "EmployeeUpdate_valid has_at (no_updates\<lparr>u_department_id := Some None\<rparr>)
   \<and> update_employee has_at 20 1 (no_updates\<lparr>u_department_id := Some None\<rparr>) db1
       = (Inl NotFoundError, db1)
   \<and> EmployeeUpdate_valid has_at (no_updates\<lparr>u_first_name := Some None\<rparr>)
   \<and> update_employee has_at 20 1 (no_updates\<lparr>u_first_name := Some None\<rparr>) db1
       = (Inl IntegrityError, db1)
   \<and> employees db1 = [alice_row]"
  by (simp add: sample_defs schema_defs update_defs)

theorem explicit_null_in_patch_witness:
  "query_first (\<lambda>e. emp_id e = 1) (employees db1) = Some alice_row
   \<and> EmployeeUpdate_valid has_at (no_updates\<lparr>u_salary := Some None\<rparr>)
   \<and> update_employee has_at 20 1 (no_updates\<lparr>u_is_active := Some None\<rparr>) db1
       = (Inl ResponseValidationError,
          db1\<lparr>employees := [alice_row\<lparr>is_active := None, updated_at := Some 20\<rparr>]\<rparr>)
   \<and> update_employee has_at 20 1 (no_updates\<lparr>u_department_id := Some None\<rparr>) db1
       = (Inl NotFoundError, db1)
   \<and> update_employee has_at 20 1 (no_updates\<lparr>u_salary := Some None\<rparr>) db1
       = (Inl IntegrityError, db1)"
  using explicit_null_in_patch [where employee_id = 1 and db = db1 and emp = alice_row
      and email_ok = has_at and now = 20 and updates = "no_updates\<lparr>u_department_id := Some None\<rparr>"]
    explicit_null_in_patch [where employee_id = 1 and db = db1 and emp = alice_row
      and email_ok = has_at and now = 20 and updates = "no_updates\<lparr>u_salary := Some None\<rparr>"]
  by (simp add: sample_defs schema_defs update_defs)

section \<open>Listing: pagination\<close>

lemma model_validate_id:
  "EmployeeResponse_model_validate email_ok row = Inr r \<Longrightarrow> r_id r = emp_id row"
  by (auto simp: EmployeeResponse_model_validate_def split: option.splits if_splits)











section \<open>Invariants of the reachable stores\<close>

text \<open>
  The mutating requests keep the primary keys of the employee table strictly ascending in
  scan order (a new row gets a key above all others, an update keeps the key, a delete
  removes rows) and never touch the department table.
\<close>

lemma max_id_upper: "e \<in> set rows \<Longrightarrow> emp_id e \<le> max_id rows"
  by (induction rows) auto

lemma create_employee_store:
  "snd (create_employee email_ok now employee db) = db
   \<or> snd (create_employee email_ok now employee db)
       = db\<lparr>employees := employees db @ [insert_row now employee (employees db)]\<rparr>"
  by (simp add: create_employee_def Let_def split: option.splits)

lemma commit_update_ids:
  "commit_update now emp obj db = Inr (row, db') \<Longrightarrow>
     map emp_id (employees db') = map emp_id (employees db) \<and> departments db' = departments db"
  by (auto simp: commit_update_def split: if_splits option.splits dest: written_row_id)

lemma update_employee_ids:
  "map emp_id (employees (snd (update_employee email_ok now employee_id updates db)))
     = map emp_id (employees db)
   \<and> departments (snd (update_employee email_ok now employee_id updates db)) = departments db"
  by (auto simp: update_employee_def split: option.splits sum.splits dest: commit_update_ids)

lemma delete_employee_store:
  "snd (delete_employee employee_id db) = db
   \<or> snd (delete_employee employee_id db)
       = db\<lparr>employees := filter (\<lambda>r. emp_id r \<noteq> employee_id) (employees db)\<rparr>"
  by (auto simp: delete_employee_def split: option.splits dest: query_first_SomeD)

lemma sorted_ids_append_new:
  assumes "sorted_wrt (<) (map emp_id rows)"
  shows "sorted_wrt (<) (map emp_id (rows @ [insert_row now employee rows]))"
proof -
  have "\<forall>e \<in> set rows. emp_id e < emp_id (insert_row now employee rows)"
    using max_id_upper [of _ rows] by (fastforce simp: insert_row_def)
  with assms show ?thesis
    by (simp add: sorted_wrt_append)
qed

lemma reachable_sorted_ids:
  "reachable db \<Longrightarrow> sorted_wrt (<) (map emp_id (employees db))"
proof (induction rule: reachable.induct)
  case bootstrap
  then show ?case by (simp add: seed_departments_def init_db_def)
next
  case (after_create db email_ok now employee)
  with create_employee_store [of email_ok now employee db] show ?case
    by (auto simp: sorted_ids_append_new simp del: map_append)
next
  case (after_update db email_ok now employee_id updates)
  then show ?case by (simp add: update_employee_ids)
next
  case (after_delete db employee_id)
  have "sorted_wrt (<) (map emp_id (filter (\<lambda>r. emp_id r \<noteq> employee_id) (employees db)))"
    using after_delete.IH by (simp add: sorted_wrt_map sorted_wrt_filter)
  with after_delete.IH delete_employee_store [of employee_id db] show ?case
    by auto
qed

lemma reachable_departments:
  "reachable db \<Longrightarrow> departments db = add_departments 1 DEFAULT_DEPARTMENTS"
proof (induction rule: reachable.induct)
  case bootstrap
  then show ?case by (simp add: seed_departments_def init_db_def)
next
  case (after_create db email_ok now employee)
  with create_employee_store [of email_ok now employee db] show ?case by auto
next
  case (after_update db email_ok now employee_id updates)
  then show ?case by (simp add: update_employee_ids)
next
  case (after_delete db employee_id)
  with delete_employee_store [of employee_id db] show ?case by auto
qed

section \<open>Departments: the employee count\<close>

lemma employee_count_live:
  "employee_count dept db
   = int (length (filter (\<lambda>e. department_id e = dept_id dept) (employees db)))"
  by (simp add: employee_count_def Let_def)

lemma list_departments_rows_valid:
  assumes "list_all (\<lambda>dept. str_between 1 100 (name dept) \<and> str_between 1 10 (code dept)) depts"
  shows "list_departments_rows depts db
         = Inr (map (\<lambda>dept. \<lparr>d_name = name dept, d_code = code dept, d_id = dept_id dept,
                           d_employee_count = employee_count dept db\<rparr>) depts)"
  using assms by (induction depts) (simp_all add: DepartmentResponse_model_validate_def)

lemma seeded_departments_valid:
  "list_all (\<lambda>dept. str_between 1 100 (name dept) \<and> str_between 1 10 (code dept))
     (add_departments 1 DEFAULT_DEPARTMENTS)"
  by (simp add: DEFAULT_DEPARTMENTS_def str_between_def)

lemma create_employee_success:
  assumes "create_employee email_ok now employee db = (Inr r, db')"
  shows "db' = db\<lparr>employees := employees db @ [insert_row now employee (employees db)]\<rparr>
         \<and> r_id r = max_id (employees db) + 1"
  using assms
  by (auto simp: create_employee_def Let_def insert_row_def
      split: if_splits option.splits dest!: model_validate_id)

lemma delete_newest:
  assumes "emp_id row = max_id (employees db) + 1"
  shows "delete_employee (emp_id row) (db\<lparr>employees := employees db @ [row]\<rparr>) = (Inr (), db)"
proof -
  have old: "\<forall>e \<in> set (employees db). emp_id e \<noteq> emp_id row"
    using assms max_id_upper [of _ "employees db"] by fastforce
  then have "filter (\<lambda>e. emp_id e = emp_id row) (employees db) = []"
    and keep: "filter (\<lambda>e. emp_id e \<noteq> emp_id row) (employees db) = employees db"
    by (simp_all add: filter_empty_conv filter_id_conv)
  then have "query_first (\<lambda>e. emp_id e = emp_id row) (employees db @ [row]) = Some row"
    by (simp add: query_first_def)
  with keep show ?thesis
    by (simp add: delete_employee_def)
qed

text \<open>
  C8. In every store reachable through the create, update and delete requests, the
  department listing succeeds and the \<open>employee_count\<close> it returns for each department
  is the number of employee rows whose \<open>department_id\<close> is the department's \<open>id\<close>,
  counted in the store as it is when the listing runs. Creating an employee raises the
  count of the department named in the payload by exactly 1 and leaves every other count
  as it was; deleting the employee just created gives back the store before the creation,
  and with it the prior counts.
\<close>

theorem department_employee_count_is_live:
  assumes "reachable db"
  shows "list_departments db
         = Inr (map (\<lambda>dept. \<lparr>d_name = name dept, d_code = code dept, d_id = dept_id dept,
                     d_employee_count =
                       int (length (filter (\<lambda>e. department_id e = dept_id dept) (employees db)))\<rparr>)
                  (departments db))
       \<and> (\<forall>r db'. create_employee email_ok now employee db = (Inr r, db') \<longrightarrow>
             (\<forall>dept. employee_count dept db'
                      = employee_count dept db
                        + (if dept_id dept = c_department_id employee then 1 else 0))
             \<and> delete_employee (r_id r) db' = (Inr (), db))"
proof (intro conjI allI impI)
  from assms have "departments db = add_departments 1 DEFAULT_DEPARTMENTS"
    by (rule reachable_departments)
  with seeded_departments_valid
  have "list_all (\<lambda>dept. str_between 1 100 (name dept) \<and> str_between 1 10 (code dept))
               (departments db)"
    by simp
  then show "list_departments db
         = Inr (map (\<lambda>dept. \<lparr>d_name = name dept, d_code = code dept, d_id = dept_id dept,
                     d_employee_count =
                       int (length (filter (\<lambda>e. department_id e = dept_id dept) (employees db)))\<rparr>)
                  (departments db))"
    by (simp add: list_departments_def list_departments_rows_valid employee_count_live)
next
  fix r db' dept
  assume "create_employee email_ok now employee db = (Inr r, db')"
  then have "db' = db\<lparr>employees := employees db @ [insert_row now employee (employees db)]\<rparr>"
    by (simp add: create_employee_success)
  then show "employee_count dept db'
             = employee_count dept db
               + (if dept_id dept = c_department_id employee then 1 else 0)"
    by (simp add: employee_count_live insert_row_def)
next
  fix r db'
  assume "create_employee email_ok now employee db = (Inr r, db')"
  then have db': "db' = db\<lparr>employees := employees db @ [insert_row now employee (employees db)]\<rparr>"
    and r: "r_id r = max_id (employees db) + 1"
    by (simp_all add: create_employee_success)
  have "emp_id (insert_row now employee (employees db)) = max_id (employees db) + 1"
    by (simp add: insert_row_def)
  from delete_newest [OF this] db' r show "delete_employee (r_id r) db' = (Inr (), db)"
    by (simp add: insert_row_def)
qed

theorem department_employee_count_is_live_witness:
  "reachable db1
   \<and> map_sum status_code (map (\<lambda>r. (d_id r, d_code r, d_employee_count r)))
       (list_departments db1)
     = Inr [(1, ''ENG'', 1), (2, ''HR'', 0), (3, ''FIN'', 0), (4, ''MKT'', 0), (5, ''SLS'', 0),
        (6, ''IT'', 0), (7, ''OPS'', 0)]
   \<and> create_employee has_at 11 bob db1 = (EmployeeResponse_model_validate has_at bob_row, db2)
   \<and> map_sum status_code (map (\<lambda>r. (d_id r, d_code r, d_employee_count r)))
       (list_departments db2)
     = Inr [(1, ''ENG'', 1), (2, ''HR'', 1), (3, ''FIN'', 0), (4, ''MKT'', 0), (5, ''SLS'', 0),
        (6, ''IT'', 0), (7, ''OPS'', 0)]
   \<and> delete_employee 2 db2 = (Inr (), db1)"
  using department_employee_count_is_live [OF reachable_db1, of has_at 11 bob]
    department_employee_count_is_live [OF reachable_db2, of has_at 11 bob]
    reachable_db1 create_bob
  by (simp add: sample_defs schema_defs delete_employee_def query_first_def)

section \<open>Listing: the order of the items\<close>





section \<open>Listing: what the search matches\<close>

















section \<open>Emails stay unique\<close>

text \<open>
  The checks of \<open>create_employee\<close> and \<open>update_employee\<close> keep the emails of the table
  pairwise different in every reachable store, which is what the update of an employee to
  its own email relies on.
\<close>

lemma distinct_after_replace:
  assumes "distinct (map k xs)" and "distinct (map h xs)"
    and "\<forall>x \<in> set xs. k x \<noteq> i \<longrightarrow> h x \<noteq> c"
  shows "distinct (map (\<lambda>x. if k x = i then c else h x) xs)"
  using assms
proof (induction xs)
  case Nil
  then show ?case by simp
next
  case (Cons x xs)
  then have IH: "distinct (map (\<lambda>x. if k x = i then c else h x) xs)" by simp
  have "(if k x = i then c else h x) \<notin> (\<lambda>x. if k x = i then c else h x) ` set xs"
  proof
    assume "(if k x = i then c else h x) \<in> (\<lambda>x. if k x = i then c else h x) ` set xs"
    then obtain y where y: "y \<in> set xs"
      and eq: "(if k x = i then c else h x) = (if k y = i then c else h y)" by auto
    from Cons.prems(1) have "k x \<notin> k ` set xs" by simp
    with y have ky: "k y \<noteq> k x" by (metis imageI)
    from Cons.prems(2) have "h x \<notin> h ` set xs" by simp
    with y have hy: "h y \<noteq> h x" by (metis imageI)
    from Cons.prems(3) y have cy: "k y \<noteq> i \<longrightarrow> h y \<noteq> c" by simp
    from Cons.prems(3) have cx: "k x \<noteq> i \<longrightarrow> h x \<noteq> c" by simp
    from eq ky hy cy cx show False by (auto split: if_splits)
  qed
  with IH show ?case by simp
qed

lemma written_row_email:
  assumes "written_row now emp (setattrs updates (load emp)) = Some row"
  shows "email row = (case u_email updates of Some (Some m) \<Rightarrow> m | _ \<Rightarrow> email emp)"
  using assms
  by (auto simp: written_row_def setattrs_def load_def split: option.splits)

lemma commit_update_unique_emails:
  assumes ids: "distinct (map emp_id (employees db))"
    and emails: "distinct (map email (employees db))"
    and found: "query_first (\<lambda>e. emp_id e = employee_id) (employees db) = Some emp"
    and free: "\<not> email_taken employee_id updates db"
    and commit: "commit_update now emp (setattrs updates (load emp)) db = Inr (row, db')"
  shows "distinct (map email (employees db'))"
proof (cases "setattrs updates (load emp) = load emp")
  case True
  with commit emails show ?thesis by (simp add: commit_update_def)
next
  case False
  with commit obtain w: "written_row now emp (setattrs updates (load emp)) = Some row"
    and db': "db' = db\<lparr>employees :=
                 map (\<lambda>r. if emp_id r = emp_id emp then row else r) (employees db)\<rparr>"
    by (auto simp: commit_update_def split: option.splits)
  from found have emp: "emp \<in> set (employees db)" "emp_id emp = employee_id"
    by (auto dest: query_first_SomeD)
  have others: "\<forall>r \<in> set (employees db). emp_id r \<noteq> employee_id \<longrightarrow> email r \<noteq> email row"
  proof (intro ballI impI)
    fix r assume r: "r \<in> set (employees db)" "emp_id r \<noteq> employee_id"
    show "email r \<noteq> email row"
    proof (cases "\<exists>m. u_email updates = Some (Some m)")
      case True
      then obtain m where m: "u_email updates = Some (Some m)" by blast
      with w have "email row = m" by (simp add: written_row_email)
      moreover from free m r have "email r \<noteq> m" by (auto simp: email_taken_iff)
      ultimately show ?thesis by simp
    next
      case False
      with w have "email row = email emp"
        by (auto simp: written_row_email split: option.splits)
      moreover from emails have "inj_on email (set (employees db))"
        by (simp add: distinct_map)
      with r emp have "email r \<noteq> email emp" by (auto dest: inj_onD)
      ultimately show ?thesis by simp
    qed
  qed
  have "map email (map (\<lambda>r. if emp_id r = emp_id emp then row else r) (employees db))
        = map (\<lambda>r. if emp_id r = employee_id then email row else email r) (employees db)"
    using emp(2) by (simp add: if_distrib [of email] cong: if_cong)
  moreover note distinct_after_replace [OF ids emails others]
  ultimately have "distinct (map email
      (map (\<lambda>r. if emp_id r = emp_id emp then row else r) (employees db)))"
    by (simp only:)
  with db' show ?thesis
    by simp
qed

lemma update_employee_unique_emails:
  assumes "distinct (map emp_id (employees db))" and "distinct (map email (employees db))"
  shows "distinct (map email (employees (snd (update_employee email_ok now employee_id updates db))))"
  using assms
  by (auto simp: update_employee_def split: option.splits sum.splits
      dest: commit_update_unique_emails)

lemma create_employee_unique_emails:
  assumes "distinct (map email (employees db))"
  shows "distinct (map email (employees (snd (create_employee email_ok now employee db))))"
  using assms
  by (auto simp: create_employee_def Let_def insert_row_def query_first_None_iff
      split: option.splits)

lemma reachable_distinct_ids: "reachable db \<Longrightarrow> distinct (map emp_id (employees db))"
  using reachable_sorted_ids [of db] strict_sorted_iff [of "map emp_id (employees db)"]
  by simp

lemma reachable_unique_emails: "reachable db \<Longrightarrow> distinct (map email (employees db))"
proof (induction rule: reachable.induct)
  case bootstrap
  then show ?case by (simp add: seed_departments_def init_db_def)
next
  case (after_create db email_ok now employee)
  then show ?case by (simp add: create_employee_unique_emails)
next
  case (after_update db email_ok now employee_id updates)
  then show ?case by (simp add: update_employee_unique_emails reachable_distinct_ids)
next
  case (after_delete db employee_id)
  then have "distinct (map email (filter (\<lambda>r. emp_id r \<noteq> employee_id) (employees db)))"
    by (simp add: distinct_map_filter)
  with after_delete.IH delete_employee_store [of employee_id db] show ?case by auto
qed

section \<open>Rows as created, and a row with a null \<open>is_active\<close>\<close>

text \<open>
  The representation \<open>create_employee\<close> returns is that of the row it has stored, and
  the row is found again under the \<open>id\<close> of the representation. A row whose \<open>is_active\<close>
  is null has no representation; \<open>db1n\<close> holds such a row and is reachable.
\<close>

lemma model_validate_fields:
  assumes "EmployeeResponse_model_validate email_ok row = Inr r"
  shows "r_first_name r = first_name row \<and> r_last_name r = last_name row
       \<and> r_email r = email row \<and> r_department_id r = department_id row
       \<and> r_position r = position row \<and> r_salary r = salary row
       \<and> Some (r_is_active r) = is_active row \<and> r_id r = emp_id row
       \<and> r_created_at r = created_at row \<and> r_updated_at r = updated_at row"
  using assms
  by (auto simp: EmployeeResponse_model_validate_def split: option.splits if_splits)

lemma model_validate_null_is_active:
  "is_active row = None \<Longrightarrow>
     EmployeeResponse_model_validate email_ok row = Inl ResponseValidationError"
  by (simp add: EmployeeResponse_model_validate_def)

lemma created_row_lookup:
  assumes "create_employee email_ok tc employee db_pre = (Inr r, db_new)"
  shows "query_first (\<lambda>e. emp_id e = r_id r) (employees db_new)
           = Some (insert_row tc employee (employees db_pre))
       \<and> EmployeeResponse_model_validate email_ok (insert_row tc employee (employees db_pre)) = Inr r"
proof -
  let ?row = "insert_row tc employee (employees db_pre)"
  from assms have db_new: "db_new = db_pre\<lparr>employees := employees db_pre @ [?row]\<rparr>"
    and rid: "r_id r = max_id (employees db_pre) + 1"
    by (simp_all add: create_employee_success)
  from assms have resp: "EmployeeResponse_model_validate email_ok ?row = Inr r"
    by (auto simp: create_employee_def Let_def split: if_splits option.splits)
  have id: "emp_id ?row = max_id (employees db_pre) + 1"
    by (simp add: insert_row_def)
  have "\<forall>e \<in> set (employees db_pre). emp_id e \<noteq> emp_id ?row"
    using id max_id_upper [of _ "employees db_pre"] by fastforce
  then have "filter (\<lambda>e. emp_id e = emp_id ?row) (employees db_pre) = []"
    by (simp add: filter_empty_conv)
  then have "query_first (\<lambda>e. emp_id e = emp_id ?row) (employees db_pre @ [?row]) = Some ?row"
    by (simp add: query_first_def)
  with db_new rid id resp show ?thesis by simp
qed



section \<open>Update: when \<open>updated_at\<close> is set\<close>

text \<open>
  C1, as amended. A successful PUT sets \<open>updated_at\<close> to the modification time when the
  patch changes the value of at least one attribute of the row: the response carries
  \<open>now\<close> and so does the stored row. When no attribute changes, and in particular for
  the empty patch, nothing is written and the answer is the representation of the row as
  it is stored. So the empty patch succeeds whenever the stored row passes the response
  schema, with every data field and \<open>updated_at\<close> unchanged: a null \<open>updated_at\<close> stays
  null. It succeeds in this way for every employee as \<open>create_employee\<close> has returned
  it. On a row whose \<open>is_active\<close> is null it does not succeed.
\<close>

theorem update_sets_updated_at_on_change:
  assumes found: "query_first (\<lambda>e. emp_id e = employee_id) (employees db) = Some emp"
  shows "(\<forall>r db'. update_employee email_ok now employee_id updates db = (Inr r, db') \<longrightarrow>
           (if setattrs updates (load emp) = load emp
            then db' = db \<and> EmployeeResponse_model_validate email_ok emp = Inr r
                 \<and> r_updated_at r = updated_at emp
            else r_updated_at r = Some now
                 \<and> map_option updated_at
                      (query_first (\<lambda>e. emp_id e = employee_id) (employees db'))
                    = Some (Some now)))
       \<and> update_employee email_ok now employee_id no_updates db
           = (EmployeeResponse_model_validate email_ok emp, db)
       \<and> (\<forall>r. EmployeeResponse_model_validate email_ok emp = Inr r \<longrightarrow>
             update_employee email_ok now employee_id no_updates db = (Inr r, db)
             \<and> r_first_name r = first_name emp \<and> r_last_name r = last_name emp
             \<and> r_email r = email emp \<and> r_department_id r = department_id emp
             \<and> r_position r = position emp \<and> r_salary r = salary emp
             \<and> Some (r_is_active r) = is_active emp
             \<and> r_updated_at r = updated_at emp)
       \<and> (is_active emp = None \<longrightarrow>
             update_employee email_ok now employee_id no_updates db
               = (Inl ResponseValidationError, db))
       \<and> (\<forall>r db_new. create_employee email_ok tc employee db_pre = (Inr r, db_new) \<longrightarrow>
             update_employee email_ok now (r_id r) no_updates db_new = (Inr r, db_new)
             \<and> r_updated_at r = None)"
proof (intro conjI allI impI)
  fix r db'
  assume ok: "update_employee email_ok now employee_id updates db = (Inr r, db')"
  from update_employee_success [OF found ok] obtain row
    where commit: "commit_update now emp (setattrs updates (load emp)) db = Inr (row, db')"
      and resp: "EmployeeResponse_model_validate email_ok row = Inr r"
    by blast
  from found have id: "emp_id emp = employee_id"
    by (auto dest: query_first_SomeD)
  show "if setattrs updates (load emp) = load emp
        then db' = db \<and> EmployeeResponse_model_validate email_ok emp = Inr r
             \<and> r_updated_at r = updated_at emp
        else r_updated_at r = Some now
             \<and> map_option updated_at
                  (query_first (\<lambda>e. emp_id e = employee_id) (employees db'))
                = Some (Some now)"
  proof (cases "setattrs updates (load emp) = load emp")
    case True
    with commit have "row = emp" and "db' = db"
      by (simp_all add: commit_update_def)
    with resp True show ?thesis
      by (simp add: model_validate_updated_at)
  next
    case False
    with commit obtain w: "written_row now emp (setattrs updates (load emp)) = Some row"
      and db': "db' = db\<lparr>employees :=
                   map (\<lambda>r. if emp_id r = emp_id emp then row else r) (employees db)\<rparr>"
      by (auto simp: commit_update_def split: option.splits)
    from w id have rid: "emp_id row = employee_id"
      by (simp add: written_row_id)
    from w have upd: "updated_at row = Some now"
      by (rule written_row_updated_at)
    from db' id have "query_first (\<lambda>e. emp_id e = employee_id) (employees db') = Some row"
      by (simp add: query_first_replaced [OF rid] found)
    with resp upd False show ?thesis
      by (simp add: model_validate_updated_at)
  qed
next
  show "update_employee email_ok now employee_id no_updates db
        = (EmployeeResponse_model_validate email_ok emp, db)"
    by (rule update_employee_empty_patch [OF found])
next
  fix r assume r: "EmployeeResponse_model_validate email_ok emp = Inr r"
  then show "update_employee email_ok now employee_id no_updates db = (Inr r, db)"
    by (simp add: update_employee_empty_patch [OF found])
  from model_validate_fields [OF r]
  show "r_first_name r = first_name emp" "r_last_name r = last_name emp"
    "r_email r = email emp" "r_department_id r = department_id emp"
    "r_position r = position emp" "r_salary r = salary emp"
    "Some (r_is_active r) = is_active emp" "r_updated_at r = updated_at emp"
    by simp_all
next
  assume "is_active emp = None"
  then show "update_employee email_ok now employee_id no_updates db
               = (Inl ResponseValidationError, db)"
    by (simp add: update_employee_empty_patch [OF found] model_validate_null_is_active)
next
  fix r db_new
  assume created: "create_employee email_ok tc employee db_pre = (Inr r, db_new)"
  let ?row = "insert_row tc employee (employees db_pre)"
  from created_row_lookup [OF created]
  have look: "query_first (\<lambda>e. emp_id e = r_id r) (employees db_new) = Some ?row"
    and resp: "EmployeeResponse_model_validate email_ok ?row = Inr r"
    by simp_all
  from resp show "update_employee email_ok now (r_id r) no_updates db_new = (Inr r, db_new)"
    by (simp add: update_employee_empty_patch [OF look])
  from model_validate_fields [OF resp] show "r_updated_at r = None"
    by (simp add: insert_row_def)
qed

text \<open>
  The specification goes further: it has the empty patch succeed on every employee and
  turn \<open>updated_at\<close> from null to non-null. On a freshly created employee the empty
  patch succeeds and \<open>updated_at\<close> is still null in the response and in the store; on
  the employee of \<open>db1n\<close> it is answered with an error.
\<close>

theorem empty_patch_keeps_updated_at_null:
  "map_sum status_code r_updated_at (fst (update_employee has_at 20 1 no_updates db1)) = Inr None
   \<and> snd (update_employee has_at 20 1 no_updates db1) = db1
   \<and> employees db1 = [alice_row] \<and> updated_at alice_row = None
   \<and> update_employee has_at 30 1 no_updates db1n = (Inl ResponseValidationError, db1n)"
  by (simp add: sample_defs schema_defs update_defs)

theorem update_sets_updated_at_on_change_witness:
  "query_first (\<lambda>e. emp_id e = 1) (employees db1) = Some alice_row
   \<and> map_sum status_code r_updated_at
       (fst (update_employee has_at 20 1 (no_updates\<lparr>u_position := Some (Some ''Lead'')\<rparr>) db1))
       = Inr (Some 20)
   \<and> employees (snd (update_employee has_at 20 1
        (no_updates\<lparr>u_position := Some (Some ''Lead'')\<rparr>) db1))
       = [alice_row\<lparr>position := ''Lead'', updated_at := Some 20\<rparr>]
   \<and> map_sum status_code r_updated_at
       (fst (update_employee has_at 20 1 (no_updates\<lparr>u_position := Some (Some ''Dev'')\<rparr>) db1))
       = Inr None
   \<and> EmployeeResponse_model_validate has_at alice_row
       = Inr \<lparr>r_first_name = ''Alice'', r_last_name = ''Engineering'',
              r_email = ''alice@co.com'', r_department_id = 1, r_position = ''Dev'',
              r_salary = 500000, r_is_active = True, r_id = 1, r_created_at = 10,
              r_updated_at = None\<rparr>
   \<and> create_employee has_at 10 alice db0 = (EmployeeResponse_model_validate has_at alice_row, db1)
   \<and> update_employee has_at 20 1 no_updates db1
       = (EmployeeResponse_model_validate has_at alice_row, db1)
   \<and> query_first (\<lambda>e. emp_id e = 1) (employees db1n) = Some alice_null_row
   \<and> is_active alice_null_row = None
   \<and> update_employee has_at 30 1 no_updates db1n = (Inl ResponseValidationError, db1n)"
  using update_sets_updated_at_on_change [where employee_id = 1 and db = db1
      and emp = alice_row and email_ok = has_at and now = 20 and tc = 10 and employee = alice
      and db_pre = db0 and updates = "no_updates\<lparr>u_position := Some (Some ''Lead'')\<rparr>"]
    update_sets_updated_at_on_change [where employee_id = 1 and db = db1n
      and emp = alice_null_row and email_ok = has_at and now = 30 and tc = 10
      and employee = alice and db_pre = db0 and updates = no_updates]
    create_alice
  by (simp add: sample_defs schema_defs update_defs)

section \<open>Update: the email check leaves the own row out\<close>






section \<open>An error after the commit\<close>


end
